theory Spec2Isabelle
  imports Main "HOL-Library.Sublist"
begin

section \<open>The async minion module of microcks-testcontainers-go\<close>

text \<open>
  The Go file \<^verbatim>\<open>ensemble/async/async.go\<close> builds the launch request of the
  Microcks async minion container, offers customizations of that request, and formats the
  WebSocket URL of a mock operation. Go strings are byte sequences, so they are
  \<^typ>\<open>string\<close> here. The container runtime (testcontainers-go) is an external
  collaborator: its calls are parameters of the model.
\<close>

subsection \<open>The functions of Go's \<^verbatim>\<open>strings\<close> package that the file calls\<close>

text \<open>
  \<^verbatim>\<open>strings.Index(s, substr)\<close>: the byte index of the first occurrence of
  \<^verbatim>\<open>substr\<close> in \<^verbatim>\<open>s\<close>, or \<open>-1\<close> when there is none.
\<close>

fun strings_Index :: "string \<Rightarrow> string \<Rightarrow> int" where
  "strings_Index [] substr = (if substr = [] then 0 else - 1)"
| "strings_Index (c # s) substr =
     (if prefix substr (c # s) then 0
      else (let i = strings_Index s substr in if i < 0 then - 1 else i + 1))"

text \<open>\<^verbatim>\<open>strings.Contains(s, substr)\<close> is \<^verbatim>\<open>Index(s, substr) >= 0\<close>.\<close>

definition strings_Contains :: "string \<Rightarrow> string \<Rightarrow> bool" where
  "strings_Contains s substr = (0 \<le> strings_Index s substr)"

text \<open>\<^verbatim>\<open>strings.Join(elems, sep)\<close>: the elements, with \<^verbatim>\<open>sep\<close> between them.\<close>

fun strings_Join :: "string list \<Rightarrow> string \<Rightarrow> string" where
  "strings_Join [] sep = []"
| "strings_Join [a] sep = a"
| "strings_Join (a # b # elems) sep = a @ sep @ strings_Join (b # elems) sep"

lemma strings_Index_bound:
  "0 \<le> strings_Index s substr \<Longrightarrow> nat (strings_Index s substr) + length substr \<le> length s"
proof (induction s)
  case Nil
  then show ?case by (simp split: if_splits)
next
  case (Cons c s)
  show ?case
  proof (cases "prefix substr (c # s)")
    case True
    then show ?thesis using prefix_length_le [of substr "c # s"] by simp
  next
    case False
    with Cons.prems have nonneg: "0 \<le> strings_Index s substr"
      by (simp add: Let_def split: if_splits)
    with False have "strings_Index (c # s) substr = strings_Index s substr + 1"
      by (simp add: Let_def)
    with Cons.IH [OF nonneg] nonneg show ?thesis
      by (simp add: nat_add_distrib)
  qed
qed

text \<open>
  \<^verbatim>\<open>strings.Split(s, sep)\<close> as Go's \<^verbatim>\<open>genSplit\<close> computes it for a non-empty
  separator: cut at the first occurrence of the separator and go on with the rest. (For the
  empty separator Go cuts after every UTF-8 sequence; the file never passes it, and the
  model cuts after every byte.)
\<close>

function strings_Split :: "string \<Rightarrow> string \<Rightarrow> string list" where
  "strings_Split s sep =
     (if sep = [] then map (\<lambda>c. [c]) s
      else (let m = strings_Index s sep in
            if m < 0 then [s]
            else take (nat m) s # strings_Split (drop (nat m + length sep) s) sep))"
  by pat_completeness auto
termination
proof (relation "measure (\<lambda>(s, sep). length s)")
  show "wf (measure (\<lambda>(s, sep). length s))" by simp
next
  fix s sep :: string and m :: int
  assume sep: "sep \<noteq> []" and m: "m = strings_Index s sep" and nonneg: "\<not> m < 0"
  from m nonneg have "nat m + length sep \<le> length s"
    using strings_Index_bound [of s sep] by simp
  moreover from sep have "0 < length sep" by simp
  ultimately have "length s - (nat m + length sep) < length s" by arith
  then show "((drop (nat m + length sep) s, sep), (s, sep)) \<in> measure (\<lambda>(s, sep). length s)"
    by simp
qed

declare strings_Split.simps [simp del]

text \<open>
  \<^verbatim>\<open>strings.ReplaceAll(s, old, new)\<close> for a non-empty \<^verbatim>\<open>old\<close>: every
  non-overlapping occurrence of \<^verbatim>\<open>old\<close>, from the left, becomes \<^verbatim>\<open>new\<close>.
  (For the empty \<^verbatim>\<open>old\<close> Go inserts \<^verbatim>\<open>new\<close> around every UTF-8 sequence; the
  file never passes it, and the model inserts around every byte.)
\<close>

function strings_ReplaceAll :: "string \<Rightarrow> string \<Rightarrow> string \<Rightarrow> string" where
  "strings_ReplaceAll s old new =
     (if old = [] then new @ concat (map (\<lambda>c. c # new) s)
      else (let j = strings_Index s old in
            if j < 0 then s
            else take (nat j) s @ new @ strings_ReplaceAll (drop (nat j + length old) s) old new))"
  by pat_completeness auto
termination
proof (relation "measure (\<lambda>(s, old, new). length s)")
  show "wf (measure (\<lambda>(s, old, new). length s))" by simp
next
  fix s old new :: string and j :: int
  assume old: "old \<noteq> []" and j: "j = strings_Index s old" and nonneg: "\<not> j < 0"
  from j nonneg have "nat j + length old \<le> length s"
    using strings_Index_bound [of s old] by simp
  moreover from old have "0 < length old" by simp
  ultimately have "length s - (nat j + length old) < length s" by arith
  then show "((drop (nat j + length old) s, old, new), (s, old, new))
      \<in> measure (\<lambda>(s, old, new). length s)"
    by simp
qed

declare strings_ReplaceAll.simps [simp del]

subsection \<open>The launch request and the runtime\<close>

text \<open>An error value of the runtime; the module only passes such values on.\<close>

datatype error = Error string

text \<open>The readiness condition, \<^verbatim>\<open>wait.ForLog(line)\<close>.\<close>

datatype wait_Strategy = ForLog string

text \<open>
  The fields of \<^verbatim>\<open>testcontainers.ContainerRequest\<close> that the module touches. A Go map
  may be \<^verbatim>\<open>nil\<close>: that is \<open>None\<close>. \<^verbatim>\<open>GenericContainerRequest\<close> embeds the
  container request and adds \<^verbatim>\<open>Started\<close>.
\<close>

record ContainerRequest =
  Image :: string
  ExposedPorts :: "string list"
  WaitingFor :: "wait_Strategy option"
  Env :: "(string \<rightharpoonup> string) option"
  Networks :: "string list"
  NetworkAliases :: "(string \<rightharpoonup> string list) option"

record GenericContainerRequest = ContainerRequest +
  Started :: bool

text \<open>
  \<^verbatim>\<open>testcontainers.CustomizeRequestOption\<close>, a
  \<^verbatim>\<open>func(req *GenericContainerRequest) error\<close>: it changes the request in place and
  returns an error or \<^verbatim>\<open>nil\<close>. Its \<^verbatim>\<open>Customize\<close> method calls the function.
\<close>

type_synonym CustomizeRequestOption =
  "GenericContainerRequest \<Rightarrow> GenericContainerRequest \<times> error option"

definition Customize ::
  "CustomizeRequestOption \<Rightarrow> GenericContainerRequest \<Rightarrow> GenericContainerRequest \<times> error option" where
  "Customize opt req = opt req"

text \<open>
  \<^verbatim>\<open>nat.Port\<close> of the runtime, a protocol and a port number; \<^verbatim>\<open>Port()\<close> reads the
  number, as a string.
\<close>

datatype nat_Port = NewPort (Proto: string) (Port: string)

text \<open>
  \<^verbatim>\<open>testcontainers.Container\<close>: the two queries of a started container that the
  module uses. Each returns a value or an error.
\<close>

record 'ctx Container =
  Host :: "'ctx \<Rightarrow> error + string"
  MappedPort :: "'ctx \<Rightarrow> string \<Rightarrow> error + nat_Port"

subsection \<open>The module\<close>

definition DefaultImage :: string where
  "DefaultImage = ''quay.io/microcks/microcks-uber-async-minion:latest''"

definition DefaultHttpPort :: string where
  "DefaultHttpPort = ''8081/tcp''"

definition DefaultNetworkAlias :: string where
  "DefaultNetworkAlias = ''microcks-async-minion''"

record ContainerOptions =
  list :: "CustomizeRequestOption list"

text \<open>\<^verbatim>\<open>co.list = append(co.list, opt)\<close>\<close>

definition Add :: "ContainerOptions \<Rightarrow> CustomizeRequestOption \<Rightarrow> ContainerOptions" where
  "Add co opt = co\<lparr>list := list co @ [opt]\<rparr>"

record 'ctx MicrocksAysncMinionContainer =
  Container :: "'ctx Container"
  extraProtocols :: string
  containerOptions :: ContainerOptions

type_synonym 'ctx Option =
  "'ctx MicrocksAysncMinionContainer \<Rightarrow> 'ctx MicrocksAysncMinionContainer \<times> error option"

text \<open>
  \<^verbatim>\<open>WithNetwork\<close>, \<^verbatim>\<open>WithNetworkAlias\<close> and \<^verbatim>\<open>WithEnv\<close> return closures over
  the request; each returns \<^verbatim>\<open>nil\<close>.
\<close>

definition WithNetwork :: "string \<Rightarrow> CustomizeRequestOption" where
  "WithNetwork networkName = (\<lambda>req.
     (req\<lparr>Networks := Networks req @ [networkName]\<rparr>, None))"

definition WithNetworkAlias :: "string \<Rightarrow> string \<Rightarrow> CustomizeRequestOption" where
  "WithNetworkAlias networkName networkAlias = (\<lambda>req.
     (let aliases = (case NetworkAliases req of None \<Rightarrow> Map.empty | Some m \<Rightarrow> m)
      in (req\<lparr>NetworkAliases := Some (aliases(networkName \<mapsto> [networkAlias]))\<rparr>, None)))"

definition WithEnv :: "string \<Rightarrow> string \<Rightarrow> CustomizeRequestOption" where
  "WithEnv key val = (\<lambda>req.
     (let env = (case Env req of None \<Rightarrow> Map.empty | Some m \<Rightarrow> m)
      in (req\<lparr>Env := Some (env(key \<mapsto> val))\<rparr>, None)))"

text \<open>\<^verbatim>\<open>kafka.Connection\<close>, of the module's \<^verbatim>\<open>connection/kafka\<close> package.\<close>

record kafka_Connection =
  BootstrapServers :: string

text \<open>
  \<^verbatim>\<open>WithKafkaConnection\<close> returns a closure over the minion handle: it extends the
  protocol string unless \<^verbatim>\<open>,KAFKA\<close> is in it already, adds two \<^verbatim>\<open>WithEnv\<close>
  customizations to the handle's option list, and returns \<^verbatim>\<open>nil\<close>.
\<close>

definition WithKafkaConnection :: "kafka_Connection \<Rightarrow> 'ctx Option" where
  "WithKafkaConnection connection = (\<lambda>minion.
     (let minion1 =
            (if \<not> strings_Contains (extraProtocols minion) '',KAFKA''
             then minion\<lparr>extraProtocols := strings_Join [extraProtocols minion, '',KAFKA''] []\<rparr>
             else minion);
          minion2 = minion1\<lparr>containerOptions :=
            Add (containerOptions minion1) (WithEnv ''ASYNC_PROTOCOLS'' (extraProtocols minion1))\<rparr>;
          minion3 = minion2\<lparr>containerOptions :=
            Add (containerOptions minion2)
              (WithEnv ''KAFKA_BOOTSTRAP_SERVER'' (BootstrapServers connection))\<rparr>
      in (minion3, None)))"

text \<open>
  \<^verbatim>\<open>RunContainer\<close>, up to the call of the runtime: the default request, then
  \<^verbatim>\<open>opt.Customize(&req)\<close> for each option in turn. The loop drops the error that
  \<^verbatim>\<open>Customize\<close> returns.
\<close>

definition RunContainer_request ::
  "string \<Rightarrow> CustomizeRequestOption list \<Rightarrow> GenericContainerRequest" where
  "RunContainer_request microcksHostPort opts =
     (let req = \<lparr>Image = DefaultImage,
                 ExposedPorts = [DefaultHttpPort],
                 WaitingFor = Some (ForLog ''Profile prod activated''),
                 Env = Some [''MICROCKS_HOST_PORT'' \<mapsto> microcksHostPort],
                 Networks = [],
                 NetworkAliases = None,
                 Started = True\<rparr>
      in fold (\<lambda>opt req. fst (Customize opt req)) opts req)"

text \<open>
  \<^verbatim>\<open>RunContainer\<close>. The runtime's \<^verbatim>\<open>testcontainers.GenericContainer\<close> is the
  first parameter. The result is Go's pair of a handle (\<open>None\<close> is \<^verbatim>\<open>nil\<close>) and an
  error (\<open>None\<close> is \<^verbatim>\<open>nil\<close>).
\<close>

definition RunContainer ::
  "('ctx \<Rightarrow> GenericContainerRequest \<Rightarrow> error + 'ctx Container) \<Rightarrow> 'ctx \<Rightarrow> string \<Rightarrow>
   CustomizeRequestOption list \<Rightarrow> 'ctx MicrocksAysncMinionContainer option \<times> error option" where
  "RunContainer GenericContainer ctx microcksHostPort opts =
     (case GenericContainer ctx (RunContainer_request microcksHostPort opts) of
        Inl err \<Rightarrow> (None, Some err)
      | Inr container \<Rightarrow>
          (Some \<lparr>Container = container, extraProtocols = [],
                 containerOptions = \<lparr>list = []\<rparr>\<rparr>, None))"

text \<open>Go's \<^verbatim>\<open>a[i]\<close> on a slice: out of range it panics, here \<open>None\<close>.\<close>

definition slice_index :: "'a list \<Rightarrow> nat \<Rightarrow> 'a option" where
  "slice_index a i = (if i < length a then Some (a ! i) else None)"

text \<open>
  \<^verbatim>\<open>WSMockEndpoint\<close>. The outer \<open>option\<close> is \<open>None\<close> when the function panics
  (the index into the split name); otherwise the result is Go's pair of the URL and an error.
  \<^verbatim>\<open>fmt.Sprintf\<close> with \<^verbatim>\<open>%s\<close> verbs only is concatenation.
\<close>

definition WSMockEndpoint ::
  "'ctx MicrocksAysncMinionContainer \<Rightarrow> 'ctx \<Rightarrow> string \<Rightarrow> string \<Rightarrow> string \<Rightarrow>
   (string \<times> error option) option" where
  "WSMockEndpoint container ctx service version operationName =
     (case Host (Container container) ctx of
        Inl err \<Rightarrow> Some ([], Some err)
      | Inr host \<Rightarrow>
          (case MappedPort (Container container) ctx DefaultHttpPort of
             Inl err \<Rightarrow> Some ([], Some err)
           | Inr port \<Rightarrow>
               (case (if strings_Index operationName '' '' \<noteq> - 1
                      then slice_index (strings_Split operationName '' '') 1
                      else Some operationName) of
                  None \<Rightarrow> None
                | Some operationName' \<Rightarrow>
                    Some (''ws://'' @ host @ '':'' @ Port port @ ''/api/ws/''
                          @ strings_ReplaceAll service '' '' ''+'' @ ''/''
                          @ strings_ReplaceAll version '' '' ''+'' @ ''/''
                          @ operationName', None))))"

subsection \<open>Example values\<close>

text \<open>
  A started container that answers both queries, one that is not running, and one whose
  port is not mapped; a runtime that starts the first, and one that fails.
\<close>

definition example_container :: "unit Container" where
  "example_container =
     \<lparr>Host = (\<lambda>ctx. Inr ''localhost''),
      MappedPort = (\<lambda>ctx port.
        if port = ''8081/tcp'' then Inr (NewPort ''tcp'' ''49213'')
        else Inl (Error ''port not found''))\<rparr>"

definition stopped_container :: "unit Container" where
  "stopped_container =
     \<lparr>Host = (\<lambda>ctx. Inl (Error ''container not running'')),
      MappedPort = (\<lambda>ctx port. Inl (Error ''container not running''))\<rparr>"

definition unmapped_container :: "unit Container" where
  "unmapped_container =
     \<lparr>Host = (\<lambda>ctx. Inr ''localhost''),
      MappedPort = (\<lambda>ctx port. Inl (Error ''port not found''))\<rparr>"

definition example_runtime :: "unit \<Rightarrow> GenericContainerRequest \<Rightarrow> error + unit Container" where
  "example_runtime ctx req = Inr example_container"

definition failing_runtime :: "unit \<Rightarrow> GenericContainerRequest \<Rightarrow> error + unit Container" where
  "failing_runtime ctx req = Inl (Error ''image pull failed'')"

definition example_minion :: "unit MicrocksAysncMinionContainer" where
  "example_minion =
     \<lparr>Container = example_container, extraProtocols = [],
      containerOptions = \<lparr>list = []\<rparr>\<rparr>"

text \<open>
  The number of positions of \<open>s\<close> at which \<open>fragment\<close> occurs; it states how often a
  protocol string contains \<^verbatim>\<open>,KAFKA\<close>.
\<close>

fun occurrences :: "string \<Rightarrow> string \<Rightarrow> nat" where
  "occurrences fragment [] = (if fragment = [] then 1 else 0)"
| "occurrences fragment (c # s) =
     (if prefix fragment (c # s) then 1 else 0) + occurrences fragment s"

section \<open>Properties\<close>

subsection \<open>The string functions with a one-byte separator\<close>

lemma strings_Index_byte:
  "strings_Index s [c] = (if c \<in> set s then int (length (takeWhile (\<lambda>x. x \<noteq> c) s)) else - 1)"
  by (induction s) (auto simp: Let_def)

lemma take_drop_byte:
  assumes "c \<in> set s"
  shows "take (nat (strings_Index s [c])) s = takeWhile (\<lambda>x. x \<noteq> c) s"
    and "drop (nat (strings_Index s [c]) + length [c]) s = tl (dropWhile (\<lambda>x. x \<noteq> c) s)"
proof -
  from assms have n: "nat (strings_Index s [c]) = length (takeWhile (\<lambda>x. x \<noteq> c) s)"
    by (simp add: strings_Index_byte)
  show "take (nat (strings_Index s [c])) s = takeWhile (\<lambda>x. x \<noteq> c) s"
    unfolding n by (rule takeWhile_eq_take [symmetric])
  have "tl (dropWhile (\<lambda>x. x \<noteq> c) s) = tl (drop (length (takeWhile (\<lambda>x. x \<noteq> c) s)) s)"
    by (simp only: dropWhile_eq_drop [symmetric])
  then show "drop (nat (strings_Index s [c]) + length [c]) s = tl (dropWhile (\<lambda>x. x \<noteq> c) s)"
    unfolding n by (simp add: drop_Suc tl_drop)
qed

lemma strings_Split_byte:
  "strings_Split s [c] =
     (if c \<in> set s
      then takeWhile (\<lambda>x. x \<noteq> c) s # strings_Split (tl (dropWhile (\<lambda>x. x \<noteq> c) s)) [c]
      else [s])"
proof (cases "c \<in> set s")
  case True
  then have "\<not> strings_Index s [c] < 0" by (simp add: strings_Index_byte)
  with True show ?thesis
    using take_drop_byte [OF True]
    by (subst strings_Split.simps) (simp add: Let_def)
next
  case False
  then show ?thesis
    by (subst strings_Split.simps) (simp add: strings_Index_byte)
qed



lemma split_at_first_byte:
  "c \<in> set s \<Longrightarrow> s = takeWhile (\<lambda>x. x \<noteq> c) s @ c # tl (dropWhile (\<lambda>x. x \<noteq> c) s)"
  by (induction s) auto

lemma replace_absent_byte:
  "c \<notin> set s \<Longrightarrow> concat (map (\<lambda>x. if x = c then new else [x]) s) = s"
  by (induction s) auto

lemma strings_ReplaceAll_byte:
  "strings_ReplaceAll s [c] new = concat (map (\<lambda>x. if x = c then new else [x]) s)"
proof (induction "length s" arbitrary: s rule: less_induct)
  case less
  show ?case
  proof (cases "c \<in> set s")
    case False
    then have "strings_ReplaceAll s [c] new = s"
      by (subst strings_ReplaceAll.simps) (simp add: strings_Index_byte)
    with False show ?thesis by (simp add: replace_absent_byte)
  next
    case True
    define pre where "pre = takeWhile (\<lambda>x. x \<noteq> c) s"
    define post where "post = tl (dropWhile (\<lambda>x. x \<noteq> c) s)"
    from True have s: "s = pre @ c # post"
      unfolding pre_def post_def by (rule split_at_first_byte)
    then have "length post < length s" by simp
    then have IH: "strings_ReplaceAll post [c] new = concat (map (\<lambda>x. if x = c then new else [x]) post)"
      by (rule less)
    from True have "\<not> strings_Index s [c] < 0" by (simp add: strings_Index_byte)
    then have step: "strings_ReplaceAll s [c] new = pre @ new @ strings_ReplaceAll post [c] new"
      using take_drop_byte [OF True] unfolding pre_def post_def
      by (subst strings_ReplaceAll.simps) (simp add: Let_def)
    have "c \<notin> set pre" unfolding pre_def by (auto dest: set_takeWhileD)
    then have "concat (map (\<lambda>x. if x = c then new else [x]) pre) = pre"
      by (rule replace_absent_byte)
    then have "concat (map (\<lambda>x. if x = c then new else [x]) s)
        = pre @ new @ concat (map (\<lambda>x. if x = c then new else [x]) post)"
      by (subst s) simp
    with step IH show ?thesis by simp
  qed
qed


lemma replace_byte_by_byte:
  "concat (map (\<lambda>x. if x = c then [d] else [x]) s) = map (\<lambda>x. if x = c then d else x) s"
  by (induction s) auto

lemma strings_ReplaceAll_space:
  "strings_ReplaceAll s '' '' ''+'' = map (\<lambda>x. if x = CHR '' '' then CHR ''+'' else x) s"
  by (simp only: strings_ReplaceAll_byte replace_byte_by_byte)

lemma takeWhile_absent_byte: "c \<notin> set s \<Longrightarrow> takeWhile (\<lambda>x. x \<noteq> c) s = s"
  by (induction s) auto

lemma first_of_Split_byte:
  "\<exists>ts. strings_Split s [c] = takeWhile (\<lambda>x. x \<noteq> c) s # ts"
proof (cases "c \<in> set s")
  case True
  then show ?thesis by (subst strings_Split_byte) simp
next
  case False
  then show ?thesis by (subst strings_Split_byte) (simp add: takeWhile_absent_byte)
qed

lemma second_of_Split_byte:
  assumes "c \<in> set s"
  shows "slice_index (strings_Split s [c]) (Suc 0)
     = Some (takeWhile (\<lambda>x. x \<noteq> c) (tl (dropWhile (\<lambda>x. x \<noteq> c) s)))"
proof -
  obtain ts where "strings_Split (tl (dropWhile (\<lambda>x. x \<noteq> c) s)) [c]
      = takeWhile (\<lambda>x. x \<noteq> c) (tl (dropWhile (\<lambda>x. x \<noteq> c) s)) # ts"
    using first_of_Split_byte by blast
  with assms have "strings_Split s [c] = takeWhile (\<lambda>x. x \<noteq> c) s
      # takeWhile (\<lambda>x. x \<noteq> c) (tl (dropWhile (\<lambda>x. x \<noteq> c) s)) # ts"
    by (subst strings_Split_byte) simp
  then show ?thesis by (simp add: slice_index_def)
qed

subsection \<open>The endpoint resolver\<close>

lemma WSMockEndpoint_resolved:
  assumes "Host (Container container) ctx = Inr host"
    and "MappedPort (Container container) ctx DefaultHttpPort = Inr port"
  shows "WSMockEndpoint container ctx service version operationName =
    Some (''ws://'' @ host @ '':'' @ Port port @ ''/api/ws/''
          @ map (\<lambda>c. if c = CHR '' '' then CHR ''+'' else c) service @ ''/''
          @ map (\<lambda>c. if c = CHR '' '' then CHR ''+'' else c) version @ ''/''
          @ (if CHR '' '' \<in> set operationName
             then takeWhile (\<lambda>c. c \<noteq> CHR '' '') (tl (dropWhile (\<lambda>c. c \<noteq> CHR '' '') operationName))
             else operationName), None)"
  using assms
  by (simp add: WSMockEndpoint_def strings_Index_byte second_of_Split_byte
      strings_ReplaceAll_space)

lemma WSMockEndpoint_host_error:
  "Host (Container container) ctx = Inl err \<Longrightarrow>
   WSMockEndpoint container ctx service version operationName = Some ([], Some err)"
  by (simp add: WSMockEndpoint_def)

lemma WSMockEndpoint_port_error:
  "Host (Container container) ctx = Inr host \<Longrightarrow>
   MappedPort (Container container) ctx DefaultHttpPort = Inl err \<Longrightarrow>
   WSMockEndpoint container ctx service version operationName = Some ([], Some err)"
  by (simp add: WSMockEndpoint_def)

lemma second_token_decomposed:
  assumes "CHR '' '' \<notin> set verb" and "CHR '' '' \<notin> set path"
    and "rest = [] \<or> hd rest = CHR '' ''"
  shows "takeWhile (\<lambda>c. c \<noteq> CHR '' '') (tl (dropWhile (\<lambda>c. c \<noteq> CHR '' '') (verb @ '' '' @ path @ rest))) = path"
proof -
  from assms(1) have "dropWhile (\<lambda>c. c \<noteq> CHR '' '') (verb @ '' '' @ path @ rest) = '' '' @ path @ rest"
    by (induction verb) auto
  moreover from assms(3) have "takeWhile (\<lambda>c. c \<noteq> CHR '' '') rest = []"
    by (cases rest) simp_all
  with assms(2) have "takeWhile (\<lambda>c. c \<noteq> CHR '' '') (path @ rest) = path"
    by (induction path) auto
  ultimately show ?thesis by simp
qed

text \<open>
  Claim C2. When the runtime returns host \<open>h\<close> and mapped port \<open>p\<close>,
  \<^verbatim>\<open>WSMockEndpoint\<close> returns \<^verbatim>\<open>ws://h:p/api/ws/S/V/O\<close> and no error, where \<open>S\<close>
  and \<open>V\<close> are the service and the version with every space replaced by \<^verbatim>\<open>+\<close>, and
  \<open>O\<close> is the operation name itself when it has no space and otherwise the part between
  its first space and the next one (or the end). With host \<^verbatim>\<open>localhost\<close>, port
  \<^verbatim>\<open>49213\<close>, service \<^verbatim>\<open>Pets\<close>, version \<^verbatim>\<open>v1\<close> and operation
  \<^verbatim>\<open>subscribe\<close> the URL is \<^verbatim>\<open>ws://localhost:49213/api/ws/Pets/v1/subscribe\<close>;
  with service \<^verbatim>\<open>Order Service\<close> and version \<^verbatim>\<open>1.0 beta\<close> the URL has the segments
  \<^verbatim>\<open>Order+Service\<close> and \<^verbatim>\<open>1.0+beta\<close>.
\<close>

theorem C2_WSMockEndpoint_url:
  assumes "Host (Container container) ctx = Inr host"
    and "MappedPort (Container container) ctx DefaultHttpPort = Inr port"
  shows "WSMockEndpoint container ctx service version operationName =
      Some (''ws://'' @ host @ '':'' @ Port port @ ''/api/ws/''
            @ map (\<lambda>c. if c = CHR '' '' then CHR ''+'' else c) service @ ''/''
            @ map (\<lambda>c. if c = CHR '' '' then CHR ''+'' else c) version @ ''/''
            @ (if CHR '' '' \<in> set operationName
               then takeWhile (\<lambda>c. c \<noteq> CHR '' '')
                      (tl (dropWhile (\<lambda>c. c \<noteq> CHR '' '') operationName))
               else operationName), None)
    \<and> (host = ''localhost'' \<and> Port port = ''49213'' \<longrightarrow>
        WSMockEndpoint container ctx ''Pets'' ''v1'' ''subscribe'' =
          Some (''ws://localhost:49213/api/ws/Pets/v1/subscribe'', None))
    \<and> (CHR '' '' \<notin> set operationName \<longrightarrow>
        WSMockEndpoint container ctx ''Order Service'' ''1.0 beta'' operationName =
          Some (''ws://'' @ host @ '':'' @ Port port
                @ ''/api/ws/Order+Service/1.0+beta/'' @ operationName, None))"
proof (intro conjI impI)
  show "WSMockEndpoint container ctx service version operationName =
      Some (''ws://'' @ host @ '':'' @ Port port @ ''/api/ws/''
            @ map (\<lambda>c. if c = CHR '' '' then CHR ''+'' else c) service @ ''/''
            @ map (\<lambda>c. if c = CHR '' '' then CHR ''+'' else c) version @ ''/''
            @ (if CHR '' '' \<in> set operationName
               then takeWhile (\<lambda>c. c \<noteq> CHR '' '')
                      (tl (dropWhile (\<lambda>c. c \<noteq> CHR '' '') operationName))
               else operationName), None)"
    using assms by (rule WSMockEndpoint_resolved)
next
  assume "host = ''localhost'' \<and> Port port = ''49213''"
  then show "WSMockEndpoint container ctx ''Pets'' ''v1'' ''subscribe'' =
      Some (''ws://localhost:49213/api/ws/Pets/v1/subscribe'', None)"
    by (simp add: WSMockEndpoint_resolved [OF assms])
next
  assume "CHR '' '' \<notin> set operationName"
  then show "WSMockEndpoint container ctx ''Order Service'' ''1.0 beta'' operationName =
      Some (''ws://'' @ host @ '':'' @ Port port
            @ ''/api/ws/Order+Service/1.0+beta/'' @ operationName, None)"
    by (simp add: WSMockEndpoint_resolved [OF assms])
qed

theorem C2_WSMockEndpoint_url_witness:
  "Host (Container example_minion) () = Inr ''localhost''
   \<and> MappedPort (Container example_minion) () DefaultHttpPort = Inr (NewPort ''tcp'' ''49213'')
   \<and> WSMockEndpoint example_minion () ''Pets'' ''v1'' ''subscribe'' =
       Some (''ws://localhost:49213/api/ws/Pets/v1/subscribe'', None)
   \<and> WSMockEndpoint example_minion () ''Order Service'' ''1.0 beta'' ''subscribe'' =
       Some (''ws://localhost:49213/api/ws/Order+Service/1.0+beta/subscribe'', None)"
proof -
  have host: "Host (Container example_minion) () = Inr ''localhost''"
    by (simp add: example_minion_def example_container_def)
  have port: "MappedPort (Container example_minion) () DefaultHttpPort = Inr (NewPort ''tcp'' ''49213'')"
    by (simp add: example_minion_def example_container_def DefaultHttpPort_def)
  show ?thesis
    using host port C2_WSMockEndpoint_url [OF host port, of "''Pets''" "''v1''" "''subscribe''"]
    by simp
qed

text \<open>
  Claim C3, as amended. For every operation name that contains a space,
  \<^verbatim>\<open>WSMockEndpoint\<close> uses as the operation segment only the second token of the name
  split on single spaces: the part between the first space and the next one (or the end),
  so a name \<^verbatim>\<open>verb path rest\<close> gives \<^verbatim>\<open>path\<close>. The verb and any later token are
  dropped; the token is not changed otherwise, so \<^verbatim>\<open>POST /orders\<close> gives the segment
  \<^verbatim>\<open>/orders\<close>, with its slash.
\<close>

theorem C3_operation_second_token:
  assumes "Host (Container container) ctx = Inr host"
    and "MappedPort (Container container) ctx DefaultHttpPort = Inr port"
  shows "(CHR '' '' \<in> set operationName \<longrightarrow>
        WSMockEndpoint container ctx service version operationName =
          Some (''ws://'' @ host @ '':'' @ Port port @ ''/api/ws/''
                @ strings_ReplaceAll service '' '' ''+'' @ ''/''
                @ strings_ReplaceAll version '' '' ''+'' @ ''/''
                @ takeWhile (\<lambda>c. c \<noteq> CHR '' '')
                    (tl (dropWhile (\<lambda>c. c \<noteq> CHR '' '') operationName)), None))
    \<and> (CHR '' '' \<notin> set verb \<and> CHR '' '' \<notin> set path \<and> (rest = [] \<or> hd rest = CHR '' '') \<longrightarrow>
        WSMockEndpoint container ctx service version (verb @ '' '' @ path @ rest) =
          Some (''ws://'' @ host @ '':'' @ Port port @ ''/api/ws/''
                @ strings_ReplaceAll service '' '' ''+'' @ ''/''
                @ strings_ReplaceAll version '' '' ''+'' @ ''/'' @ path, None))
    \<and> WSMockEndpoint container ctx ''Pets'' ''v1'' ''POST /orders'' =
          Some (''ws://'' @ host @ '':'' @ Port port @ ''/api/ws/Pets/v1/'' @ ''/orders'', None)"
proof (intro conjI impI)
  assume "CHR '' '' \<in> set operationName"
  then show "WSMockEndpoint container ctx service version operationName =
      Some (''ws://'' @ host @ '':'' @ Port port @ ''/api/ws/''
            @ strings_ReplaceAll service '' '' ''+'' @ ''/''
            @ strings_ReplaceAll version '' '' ''+'' @ ''/''
            @ takeWhile (\<lambda>c. c \<noteq> CHR '' '')
                (tl (dropWhile (\<lambda>c. c \<noteq> CHR '' '') operationName)), None)"
    by (simp add: WSMockEndpoint_resolved [OF assms] strings_ReplaceAll_space)
next
  assume parts: "CHR '' '' \<notin> set verb \<and> CHR '' '' \<notin> set path \<and> (rest = [] \<or> hd rest = CHR '' '')"
  then have "takeWhile (\<lambda>c. c \<noteq> CHR '' '')
      (tl (dropWhile (\<lambda>c. c \<noteq> CHR '' '') (verb @ '' '' @ path @ rest))) = path"
    using second_token_decomposed [of verb path rest] by blast
  moreover have "CHR '' '' \<in> set (verb @ '' '' @ path @ rest)" by simp
  ultimately show "WSMockEndpoint container ctx service version (verb @ '' '' @ path @ rest) =
      Some (''ws://'' @ host @ '':'' @ Port port @ ''/api/ws/''
            @ strings_ReplaceAll service '' '' ''+'' @ ''/''
            @ strings_ReplaceAll version '' '' ''+'' @ ''/'' @ path, None)"
    by (simp only: WSMockEndpoint_resolved [OF assms] strings_ReplaceAll_space if_True)
next
  show "WSMockEndpoint container ctx ''Pets'' ''v1'' ''POST /orders'' =
      Some (''ws://'' @ host @ '':'' @ Port port @ ''/api/ws/Pets/v1/'' @ ''/orders'', None)"
    by (simp add: WSMockEndpoint_resolved [OF assms])
qed

theorem C3_operation_second_token_witness:
  "Host (Container example_minion) () = Inr ''localhost''
   \<and> MappedPort (Container example_minion) () DefaultHttpPort = Inr (NewPort ''tcp'' ''49213'')
   \<and> CHR '' '' \<in> set ''SUBSCRIBE user/signedup now''
   \<and> WSMockEndpoint example_minion () ''Pets'' ''v1'' ''SUBSCRIBE user/signedup now'' =
       Some (''ws://localhost:49213/api/ws/Pets/v1/user/signedup'', None)
   \<and> WSMockEndpoint example_minion () ''Pets'' ''v1'' ''POST /orders'' =
       Some (''ws://localhost:49213/api/ws/Pets/v1//orders'', None)"
proof -
  have host: "Host (Container example_minion) () = Inr ''localhost''"
    by (simp add: example_minion_def example_container_def)
  have port: "MappedPort (Container example_minion) () DefaultHttpPort = Inr (NewPort ''tcp'' ''49213'')"
    by (simp add: example_minion_def example_container_def DefaultHttpPort_def)
  have parts: "CHR '' '' \<notin> set ''SUBSCRIBE'' \<and> CHR '' '' \<notin> set ''user/signedup''
      \<and> ('' now'' = [] \<or> hd '' now'' = CHR '' '')"
    by simp
  have repl: "strings_ReplaceAll ''Pets'' '' '' ''+'' = ''Pets''"
      "strings_ReplaceAll ''v1'' '' '' ''+'' = ''v1''"
    by (simp_all add: strings_ReplaceAll_space)
  show ?thesis
    using host port parts repl
      C3_operation_second_token [OF host port, of "''SUBSCRIBE user/signedup now''"
        "''Pets''" "''v1''" "''SUBSCRIBE''" "''user/signedup''" "'' now''"]
    by simp
qed

theorem C3_post_orders_counterexample:
  "WSMockEndpoint example_minion () ''Pets'' ''v1'' ''POST /orders''
     \<noteq> Some (''ws://localhost:49213/api/ws/Pets/v1/orders'', None)
   \<and> WSMockEndpoint example_minion () ''Pets'' ''v1'' ''POST /orders''
     = Some (''ws://localhost:49213/api/ws/Pets/v1//orders'', None)"
proof -
  have host: "Host (Container example_minion) () = Inr ''localhost''"
    by (simp add: example_minion_def example_container_def)
  have port: "MappedPort (Container example_minion) () DefaultHttpPort = Inr (NewPort ''tcp'' ''49213'')"
    by (simp add: example_minion_def example_container_def DefaultHttpPort_def)
  show ?thesis
    by (simp add: WSMockEndpoint_resolved [OF host port])
qed

text \<open>
  Claim C9. \<^verbatim>\<open>WSMockEndpoint\<close> always returns (it never panics), and it returns an error
  exactly when the host lookup or the mapped-port lookup fails; the result is then the
  empty string with the error of the lookup that failed first, unchanged. When both
  lookups succeed it returns no error and the URL built from the three names, whatever
  they are: every name is interpolated as it is (spaces of the service and the version
  as \<^verbatim>\<open>+\<close>, the operation name cut to its second token when it has a space), and an
  empty service, version or operation name leaves an empty segment at its place while
  the other two names still appear.
\<close>

theorem C9_WSMockEndpoint_errors:
  "(\<exists>url err. WSMockEndpoint container ctx service version operationName = Some (url, err)
      \<and> ((err \<noteq> None) =
         (isl (Host (Container container) ctx)
          \<or> isl (MappedPort (Container container) ctx DefaultHttpPort))))
   \<and> (Host (Container container) ctx = Inl e \<longrightarrow>
        WSMockEndpoint container ctx service version operationName = Some ([], Some e))
   \<and> (Host (Container container) ctx = Inr host
        \<and> MappedPort (Container container) ctx DefaultHttpPort = Inl e \<longrightarrow>
        WSMockEndpoint container ctx service version operationName = Some ([], Some e))
   \<and> (Host (Container container) ctx = Inr host
        \<and> MappedPort (Container container) ctx DefaultHttpPort = Inr port \<longrightarrow>
        WSMockEndpoint container ctx service version operationName =
          Some (''ws://'' @ host @ '':'' @ Port port @ ''/api/ws/''
                @ map (\<lambda>c. if c = CHR '' '' then CHR ''+'' else c) service @ ''/''
                @ map (\<lambda>c. if c = CHR '' '' then CHR ''+'' else c) version @ ''/''
                @ (if CHR '' '' \<in> set operationName
                   then takeWhile (\<lambda>c. c \<noteq> CHR '' '')
                          (tl (dropWhile (\<lambda>c. c \<noteq> CHR '' '') operationName))
                   else operationName), None)
        \<and> WSMockEndpoint container ctx [] version operationName =
          Some (''ws://'' @ host @ '':'' @ Port port @ ''/api/ws/'' @ ''/''
                @ map (\<lambda>c. if c = CHR '' '' then CHR ''+'' else c) version @ ''/''
                @ (if CHR '' '' \<in> set operationName
                   then takeWhile (\<lambda>c. c \<noteq> CHR '' '')
                          (tl (dropWhile (\<lambda>c. c \<noteq> CHR '' '') operationName))
                   else operationName), None)
        \<and> WSMockEndpoint container ctx service [] operationName =
          Some (''ws://'' @ host @ '':'' @ Port port @ ''/api/ws/''
                @ map (\<lambda>c. if c = CHR '' '' then CHR ''+'' else c) service @ ''/'' @ ''/''
                @ (if CHR '' '' \<in> set operationName
                   then takeWhile (\<lambda>c. c \<noteq> CHR '' '')
                          (tl (dropWhile (\<lambda>c. c \<noteq> CHR '' '') operationName))
                   else operationName), None)
        \<and> WSMockEndpoint container ctx service version [] =
          Some (''ws://'' @ host @ '':'' @ Port port @ ''/api/ws/''
                @ map (\<lambda>c. if c = CHR '' '' then CHR ''+'' else c) service @ ''/''
                @ map (\<lambda>c. if c = CHR '' '' then CHR ''+'' else c) version @ ''/'', None)
        \<and> WSMockEndpoint container ctx [] [] [] =
          Some (''ws://'' @ host @ '':'' @ Port port @ ''/api/ws///'', None))"
proof (intro conjI impI)
  show "\<exists>url err. WSMockEndpoint container ctx service version operationName = Some (url, err)
      \<and> ((err \<noteq> None) =
         (isl (Host (Container container) ctx)
          \<or> isl (MappedPort (Container container) ctx DefaultHttpPort)))"
  proof (cases "Host (Container container) ctx")
    case (Inl err)
    then show ?thesis by (simp add: WSMockEndpoint_host_error)
  next
    case host: (Inr h)
    show ?thesis
    proof (cases "MappedPort (Container container) ctx DefaultHttpPort")
      case (Inl err)
      with host show ?thesis by (simp add: WSMockEndpoint_port_error)
    next
      case (Inr p)
      with host show ?thesis by (simp add: WSMockEndpoint_resolved)
    qed
  qed
next
  assume "Host (Container container) ctx = Inl e"
  then show "WSMockEndpoint container ctx service version operationName = Some ([], Some e)"
    by (rule WSMockEndpoint_host_error)
next
  assume "Host (Container container) ctx = Inr host
      \<and> MappedPort (Container container) ctx DefaultHttpPort = Inl e"
  then show "WSMockEndpoint container ctx service version operationName = Some ([], Some e)"
    by (simp add: WSMockEndpoint_port_error)
next
  assume ok: "Host (Container container) ctx = Inr host
      \<and> MappedPort (Container container) ctx DefaultHttpPort = Inr port"
  then have host: "Host (Container container) ctx = Inr host"
    and port: "MappedPort (Container container) ctx DefaultHttpPort = Inr port"
    by simp_all
  note url = WSMockEndpoint_resolved [OF host port]
  show "WSMockEndpoint container ctx service version operationName =
      Some (''ws://'' @ host @ '':'' @ Port port @ ''/api/ws/''
            @ map (\<lambda>c. if c = CHR '' '' then CHR ''+'' else c) service @ ''/''
            @ map (\<lambda>c. if c = CHR '' '' then CHR ''+'' else c) version @ ''/''
            @ (if CHR '' '' \<in> set operationName
               then takeWhile (\<lambda>c. c \<noteq> CHR '' '')
                      (tl (dropWhile (\<lambda>c. c \<noteq> CHR '' '') operationName))
               else operationName), None)"
    by (rule url)
  show "WSMockEndpoint container ctx [] version operationName =
      Some (''ws://'' @ host @ '':'' @ Port port @ ''/api/ws/'' @ ''/''
            @ map (\<lambda>c. if c = CHR '' '' then CHR ''+'' else c) version @ ''/''
            @ (if CHR '' '' \<in> set operationName
               then takeWhile (\<lambda>c. c \<noteq> CHR '' '')
                      (tl (dropWhile (\<lambda>c. c \<noteq> CHR '' '') operationName))
               else operationName), None)"
    by (simp add: url)
  show "WSMockEndpoint container ctx service [] operationName =
      Some (''ws://'' @ host @ '':'' @ Port port @ ''/api/ws/''
            @ map (\<lambda>c. if c = CHR '' '' then CHR ''+'' else c) service @ ''/'' @ ''/''
            @ (if CHR '' '' \<in> set operationName
               then takeWhile (\<lambda>c. c \<noteq> CHR '' '')
                      (tl (dropWhile (\<lambda>c. c \<noteq> CHR '' '') operationName))
               else operationName), None)"
    by (simp add: url)
  show "WSMockEndpoint container ctx service version [] =
      Some (''ws://'' @ host @ '':'' @ Port port @ ''/api/ws/''
            @ map (\<lambda>c. if c = CHR '' '' then CHR ''+'' else c) service @ ''/''
            @ map (\<lambda>c. if c = CHR '' '' then CHR ''+'' else c) version @ ''/'', None)"
    by (simp add: url)
  show "WSMockEndpoint container ctx [] [] [] =
      Some (''ws://'' @ host @ '':'' @ Port port @ ''/api/ws///'', None)"
    by (simp add: url)
qed

theorem C9_WSMockEndpoint_errors_witness:
  "WSMockEndpoint \<lparr>Container = stopped_container, extraProtocols = [],
       containerOptions = \<lparr>list = []\<rparr>\<rparr> () ''Pets'' ''v1'' ''subscribe''
     = Some ([], Some (Error ''container not running''))
   \<and> WSMockEndpoint \<lparr>Container = unmapped_container, extraProtocols = [],
       containerOptions = \<lparr>list = []\<rparr>\<rparr> () ''Pets'' ''v1'' ''subscribe''
     = Some ([], Some (Error ''port not found''))
   \<and> WSMockEndpoint example_minion () [] ''v1'' ''subscribe''
     = Some (''ws://localhost:49213/api/ws//v1/subscribe'', None)
   \<and> WSMockEndpoint example_minion () ''Pets'' [] ''subscribe''
     = Some (''ws://localhost:49213/api/ws/Pets//subscribe'', None)
   \<and> WSMockEndpoint example_minion () ''Pets'' ''v1'' []
     = Some (''ws://localhost:49213/api/ws/Pets/v1/'', None)
   \<and> WSMockEndpoint example_minion () [] [] [] = Some (''ws://localhost:49213/api/ws///'', None)"
proof -
  have stopped: "WSMockEndpoint \<lparr>Container = stopped_container, extraProtocols = [],
       containerOptions = \<lparr>list = []\<rparr>\<rparr> () ''Pets'' ''v1'' ''subscribe''
     = Some ([], Some (Error ''container not running''))"
    using C9_WSMockEndpoint_errors [of "\<lparr>Container = stopped_container, extraProtocols = [],
        containerOptions = \<lparr>list = []\<rparr>\<rparr>" "()" "''Pets''" "''v1''" "''subscribe''"
        "Error ''container not running''"]
    by (simp add: stopped_container_def)
  have unmapped: "WSMockEndpoint \<lparr>Container = unmapped_container, extraProtocols = [],
       containerOptions = \<lparr>list = []\<rparr>\<rparr> () ''Pets'' ''v1'' ''subscribe''
     = Some ([], Some (Error ''port not found''))"
    using C9_WSMockEndpoint_errors [of "\<lparr>Container = unmapped_container, extraProtocols = [],
        containerOptions = \<lparr>list = []\<rparr>\<rparr>" "()" "''Pets''" "''v1''" "''subscribe''"
        "Error ''port not found''" "''localhost''"]
    by (simp add: unmapped_container_def)
  have host: "Host (Container example_minion) () = Inr ''localhost''"
    by (simp add: example_minion_def example_container_def)
  have port: "MappedPort (Container example_minion) () DefaultHttpPort
      = Inr (NewPort ''tcp'' ''49213'')"
    by (simp add: example_minion_def example_container_def DefaultHttpPort_def)
  have resolved: "WSMockEndpoint example_minion () [] ''v1'' ''subscribe''
       = Some (''ws://localhost:49213/api/ws//v1/subscribe'', None)
     \<and> WSMockEndpoint example_minion () ''Pets'' [] ''subscribe''
       = Some (''ws://localhost:49213/api/ws/Pets//subscribe'', None)
     \<and> WSMockEndpoint example_minion () ''Pets'' ''v1'' []
       = Some (''ws://localhost:49213/api/ws/Pets/v1/'', None)
     \<and> WSMockEndpoint example_minion () [] [] []
       = Some (''ws://localhost:49213/api/ws///'', None)"
    using host port
      C9_WSMockEndpoint_errors [of example_minion "()" "''Pets''" "''v1''" "''subscribe''"
        "Error []" "''localhost''" "NewPort ''tcp'' ''49213''"]
    by simp
  from stopped unmapped resolved show ?thesis by simp
qed

subsection \<open>The customizations of the request\<close>

lemma WithEnv_Env:
  "Env (fst (WithEnv key val req)) =
     Some ((case Env req of None \<Rightarrow> Map.empty | Some m \<Rightarrow> m)(key \<mapsto> val))"
  by (simp add: WithEnv_def Let_def)

lemma WithEnv_nil: "snd (WithEnv key val req) = None"
  by (simp add: WithEnv_def Let_def)

lemma fold_WithEnv_keeps:
  assumes "key \<notin> fst ` set kvs" and "Env req = Some env" and "env key = Some val"
  shows "\<exists>env'. Env (fold (\<lambda>opt req. fst (Customize opt req))
            (map (\<lambda>(k, v). WithEnv k v) kvs) req) = Some env' \<and> env' key = Some val"
  using assms
proof (induction kvs arbitrary: req env)
  case Nil
  then show ?case by simp
next
  case (Cons kv kvs)
  obtain k v where kv: "kv = (k, v)" by (cases kv)
  with Cons.prems(1) have ne: "k \<noteq> key" and rest: "key \<notin> fst ` set kvs" by auto
  from Cons.prems(2) have "Env (fst (WithEnv k v req)) = Some (env(k \<mapsto> v))"
    by (simp add: WithEnv_Env)
  moreover from ne Cons.prems(3) have "(env(k \<mapsto> v)) key = Some val" by simp
  ultimately have "\<exists>env'. Env (fold (\<lambda>opt req. fst (Customize opt req))
      (map (\<lambda>(k, v). WithEnv k v) kvs) (fst (WithEnv k v req))) = Some env' \<and> env' key = Some val"
    using Cons.IH [OF rest] by blast
  with kv show ?case by (simp add: Customize_def)
qed

text \<open>
  Claim C4. Apply any sequence of \<^verbatim>\<open>WithEnv\<close> customizations to a request, in order, as
  the loop of \<^verbatim>\<open>RunContainer\<close> does. For a key \<open>k\<close>, the last customization with that
  key decides: if it sets \<open>v\<close> and no later one has key \<open>k\<close>, the final environment binds
  \<open>k\<close> to \<open>v\<close>, whatever was set before. No customization returns an error, and on a
  request without an environment mapping the first one creates it.
\<close>

theorem C4_WithEnv_last_writer_wins:
  "(key \<notin> fst ` set later \<longrightarrow>
      (\<exists>env. Env (fold (\<lambda>opt req. fst (Customize opt req))
                 (map (\<lambda>(k, v). WithEnv k v) (earlier @ (key, val) # later)) req) = Some env
             \<and> env key = Some val))
   \<and> snd (Customize (WithEnv key val) req) = None
   \<and> (Env req = None \<longrightarrow> Env (fst (Customize (WithEnv key val) req)) = Some [key \<mapsto> val])"
proof (intro conjI impI)
  assume later: "key \<notin> fst ` set later"
  define mid where "mid = fold (\<lambda>opt req. fst (Customize opt req))
      (map (\<lambda>(k, v). WithEnv k v) earlier) req"
  have "Env (fst (WithEnv key val mid))
      = Some ((case Env mid of None \<Rightarrow> Map.empty | Some m \<Rightarrow> m)(key \<mapsto> val))"
    by (rule WithEnv_Env)
  moreover have "((case Env mid of None \<Rightarrow> Map.empty | Some m \<Rightarrow> m)(key \<mapsto> val)) key = Some val"
    by simp
  ultimately have "\<exists>env. Env (fold (\<lambda>opt req. fst (Customize opt req))
      (map (\<lambda>(k, v). WithEnv k v) later) (fst (WithEnv key val mid))) = Some env
      \<and> env key = Some val"
    by (rule fold_WithEnv_keeps [OF later])
  then show "\<exists>env. Env (fold (\<lambda>opt req. fst (Customize opt req))
      (map (\<lambda>(k, v). WithEnv k v) (earlier @ (key, val) # later)) req) = Some env
      \<and> env key = Some val"
    by (simp add: mid_def Customize_def)
next
  show "snd (Customize (WithEnv key val) req) = None"
    by (simp add: Customize_def WithEnv_nil)
next
  assume "Env req = None"
  then show "Env (fst (Customize (WithEnv key val) req)) = Some [key \<mapsto> val]"
    by (simp add: Customize_def WithEnv_Env)
qed

theorem C4_WithEnv_last_writer_wins_witness:
  "''A'' \<notin> fst ` set [(''B'', ''x'')]
   \<and> (\<exists>env. Env (fold (\<lambda>opt req. fst (Customize opt req))
        (map (\<lambda>(k, v). WithEnv k v) [(''A'', ''1''), (''A'', ''2''), (''B'', ''x'')])
        (RunContainer_request ''microcks:8080'' [])) = Some env \<and> env ''A'' = Some ''2'')"
  using C4_WithEnv_last_writer_wins [of "''A''" "[(''B'', ''x'')]" "[(''A'', ''1'')]" "''2''"
      "RunContainer_request ''microcks:8080'' []"]
  by simp

text \<open>
  Claim C6. \<^verbatim>\<open>WithNetworkAlias(n, a1)\<close> and then \<^verbatim>\<open>WithNetworkAlias(n, a2)\<close>, applied
  to any request, leave the one-element list \<open>[a2]\<close> as the alias list of network \<open>n\<close>:
  the second call overwrites. Neither returns an error.
\<close>

theorem C6_WithNetworkAlias_overwrites:
  "(\<exists>aliases. NetworkAliases (fst (Customize (WithNetworkAlias n a2)
        (fst (Customize (WithNetworkAlias n a1) req)))) = Some aliases
      \<and> aliases n = Some [a2])
   \<and> snd (Customize (WithNetworkAlias n a1) req) = None
   \<and> snd (Customize (WithNetworkAlias n a2) (fst (Customize (WithNetworkAlias n a1) req))) = None"
  by (simp add: Customize_def WithNetworkAlias_def Let_def)

theorem C6_WithNetworkAlias_overwrites_witness:
  "\<exists>aliases. NetworkAliases (fst (Customize (WithNetworkAlias ''net'' ''minion2'')
        (fst (Customize (WithNetworkAlias ''net'' ''minion1'')
           (RunContainer_request ''microcks:8080'' []))))) = Some aliases
      \<and> aliases ''net'' = Some [''minion2'']"
  using C6_WithNetworkAlias_overwrites [of "''net''" "''minion2''" "''minion1''"
      "RunContainer_request ''microcks:8080'' []"]
  by simp

subsection \<open>Launching the container\<close>

lemma RunContainer_request_default:
  "RunContainer_request microcksHostPort [] =
     \<lparr>Image = ''quay.io/microcks/microcks-uber-async-minion:latest'',
      ExposedPorts = [''8081/tcp''],
      WaitingFor = Some (ForLog ''Profile prod activated''),
      Env = Some [''MICROCKS_HOST_PORT'' \<mapsto> microcksHostPort],
      Networks = [],
      NetworkAliases = None,
      Started = True\<rparr>"
  by (simp add: RunContainer_request_def DefaultImage_def DefaultHttpPort_def)

lemma RunContainer_request_snoc:
  "RunContainer_request microcksHostPort (opts @ [opt]) =
     fst (Customize opt (RunContainer_request microcksHostPort opts))"
  by (simp add: RunContainer_request_def)

text \<open>
  Claim C7. For every \<^verbatim>\<open>microcksHostPort\<close> and every list of customizations,
  \<^verbatim>\<open>RunContainer\<close> starts from the request with the default image, the one exposed
  port \<^verbatim>\<open>8081/tcp\<close>, the log-line readiness condition and the environment that binds
  exactly \<^verbatim>\<open>MICROCKS_HOST_PORT\<close>, to the caller's \<^verbatim>\<open>microcksHostPort\<close>; it applies
  the customizations to it in the order given, each to the request the earlier ones left;
  and it hands the resulting request to the runtime, whose answer decides the result.
\<close>

theorem C7_RunContainer_request:
  "RunContainer_request microcksHostPort [] =
     \<lparr>Image = ''quay.io/microcks/microcks-uber-async-minion:latest'',
      ExposedPorts = [''8081/tcp''],
      WaitingFor = Some (ForLog ''Profile prod activated''),
      Env = Some [''MICROCKS_HOST_PORT'' \<mapsto> microcksHostPort],
      Networks = [],
      NetworkAliases = None,
      Started = True\<rparr>
   \<and> RunContainer_request microcksHostPort (opts @ [opt]) =
       fst (Customize opt (RunContainer_request microcksHostPort opts))
   \<and> RunContainer GenericContainer ctx microcksHostPort opts =
       (case GenericContainer ctx (RunContainer_request microcksHostPort opts) of
          Inl err \<Rightarrow> (None, Some err)
        | Inr container \<Rightarrow>
            (Some \<lparr>Container = container, extraProtocols = [],
                   containerOptions = \<lparr>list = []\<rparr>\<rparr>, None))"
  by (simp only: RunContainer_request_default RunContainer_request_snoc RunContainer_def
      simp_thms)

theorem C7_RunContainer_request_witness:
  "(\<exists>env. Env (RunContainer_request ''microcks:8080''
        [WithEnv ''MICROCKS_HOST_PORT'' ''other:9090'', WithNetwork ''net'']) = Some env
      \<and> env ''MICROCKS_HOST_PORT'' = Some ''other:9090'')
   \<and> Networks (RunContainer_request ''microcks:8080''
        [WithEnv ''MICROCKS_HOST_PORT'' ''other:9090'', WithNetwork ''net'']) = [''net'']
   \<and> Image (RunContainer_request ''microcks:8080''
        [WithEnv ''MICROCKS_HOST_PORT'' ''other:9090'', WithNetwork ''net''])
      = ''quay.io/microcks/microcks-uber-async-minion:latest''"
proof -
  let ?env = "WithEnv ''MICROCKS_HOST_PORT'' ''other:9090''"
  let ?net = "WithNetwork ''net''"
  have r0: "RunContainer_request ''microcks:8080'' [] =
     \<lparr>Image = ''quay.io/microcks/microcks-uber-async-minion:latest'',
      ExposedPorts = [''8081/tcp''],
      WaitingFor = Some (ForLog ''Profile prod activated''),
      Env = Some [''MICROCKS_HOST_PORT'' \<mapsto> ''microcks:8080''],
      Networks = [],
      NetworkAliases = None,
      Started = True\<rparr>"
    using C7_RunContainer_request [of "''microcks:8080''" "[]" ?env example_runtime "()"]
    by (rule conjunct1)
  have r1: "RunContainer_request ''microcks:8080'' [?env] =
      fst (Customize ?env (RunContainer_request ''microcks:8080'' []))"
    using C7_RunContainer_request [of "''microcks:8080''" "[]" ?env example_runtime "()"]
    by simp
  have r2: "RunContainer_request ''microcks:8080'' [?env, ?net] =
      fst (Customize ?net (RunContainer_request ''microcks:8080'' [?env]))"
    using C7_RunContainer_request [of "''microcks:8080''" "[?env]" ?net example_runtime "()"]
    by simp
  show ?thesis
    unfolding r2 r1 r0 by (simp add: Customize_def WithEnv_def WithNetwork_def)
qed

text \<open>
  Claim C8. If the runtime's create-and-start call fails, \<^verbatim>\<open>RunContainer\<close> returns a
  \<^verbatim>\<open>nil\<close> handle and that very error; otherwise it returns a handle (around the
  container the runtime returned) and a \<^verbatim>\<open>nil\<close> error.
\<close>

theorem C8_RunContainer_result:
  "(GenericContainer ctx (RunContainer_request microcksHostPort opts) = Inl err \<longrightarrow>
      RunContainer GenericContainer ctx microcksHostPort opts = (None, Some err))
   \<and> (GenericContainer ctx (RunContainer_request microcksHostPort opts) = Inr container \<longrightarrow>
      (\<exists>minion. RunContainer GenericContainer ctx microcksHostPort opts = (Some minion, None)
         \<and> Container minion = container))"
  by (simp add: RunContainer_def)

theorem C8_RunContainer_result_witness:
  "failing_runtime () (RunContainer_request ''microcks:8080'' []) = Inl (Error ''image pull failed'')
   \<and> RunContainer failing_runtime () ''microcks:8080'' [] = (None, Some (Error ''image pull failed''))
   \<and> example_runtime () (RunContainer_request ''microcks:8080'' []) = Inr example_container
   \<and> (\<exists>minion. RunContainer example_runtime () ''microcks:8080'' [] = (Some minion, None)
        \<and> Container minion = example_container)"
  using
    C8_RunContainer_result [of failing_runtime "()" "''microcks:8080''" "[]"
      "Error ''image pull failed''"]
    C8_RunContainer_result [of example_runtime "()" "''microcks:8080''" "[]" _ example_container]
  by (simp add: failing_runtime_def example_runtime_def)

subsection \<open>The Kafka customization of the handle\<close>

lemma strings_Index_ge: "- 1 \<le> strings_Index s substr"
  by (induction s) (auto simp: Let_def)

lemma strings_Contains_Nil: "strings_Contains [] substr = (substr = [])"
  by (simp add: strings_Contains_def)

lemma strings_Contains_Cons:
  "strings_Contains (c # s) substr = (prefix substr (c # s) \<or> strings_Contains s substr)"
  using strings_Index_ge [of s substr] by (auto simp: strings_Contains_def Let_def)

lemma strings_Contains_append_self: "strings_Contains (s @ substr) substr"
proof (induction s)
  case Nil
  show ?case by (cases substr) (simp_all add: strings_Contains_Nil strings_Contains_Cons)
next
  case (Cons c s)
  then show ?case by (simp add: strings_Contains_Cons)
qed

lemma KAFKA_no_overlap:
  assumes "prefix '',KAFKA'' ((c # s) @ '',KAFKA'')"
  shows "prefix '',KAFKA'' (c # s)"
proof -
  from assms consider "prefix '',KAFKA'' (c # s)"
    | us where "'',KAFKA'' = (c # s) @ us" and "prefix us '',KAFKA''"
    unfolding prefix_append by blast
  then show ?thesis
  proof cases
    case 1
    then show ?thesis .
  next
    case 2
    then show ?thesis
      by (auto simp: Cons_eq_append_conv prefix_Cons)
  qed
qed

lemma occurrences_append_KAFKA:
  "\<not> strings_Contains s '',KAFKA'' \<Longrightarrow> occurrences '',KAFKA'' (s @ '',KAFKA'') = 1"
proof (induction s)
  case Nil
  show ?case by simp
next
  case (Cons c s)
  then have absent: "\<not> prefix '',KAFKA'' (c # s)" and rest: "\<not> strings_Contains s '',KAFKA''"
    by (simp_all add: strings_Contains_Cons)
  from absent have "\<not> prefix '',KAFKA'' ((c # s) @ '',KAFKA'')"
    using KAFKA_no_overlap by blast
  then have "occurrences '',KAFKA'' ((c # s) @ '',KAFKA'') = occurrences '',KAFKA'' (s @ '',KAFKA'')"
    by simp
  with Cons.IH [OF rest] show ?case by simp
qed

lemma WithKafkaConnection_extraProtocols:
  "extraProtocols (fst (WithKafkaConnection connection minion)) =
     (if strings_Contains (extraProtocols minion) '',KAFKA'' then extraProtocols minion
      else extraProtocols minion @ '',KAFKA'')"
  by (simp add: WithKafkaConnection_def Let_def)

lemma WithKafkaConnection_contains:
  "strings_Contains (extraProtocols (fst (WithKafkaConnection connection minion))) '',KAFKA''"
  using strings_Contains_append_self [of "extraProtocols minion" "'',KAFKA''"]
  by (simp add: WithKafkaConnection_extraProtocols)

lemma WithKafkaConnection_at_most_once:
  assumes "occurrences '',KAFKA'' (extraProtocols minion) \<le> 1"
  shows "occurrences '',KAFKA'' (extraProtocols (fst (WithKafkaConnection connection minion))) \<le> 1"
proof (cases "strings_Contains (extraProtocols minion) '',KAFKA''")
  case True
  with assms show ?thesis by (simp add: WithKafkaConnection_extraProtocols)
next
  case False
  then show ?thesis
    by (simp add: WithKafkaConnection_extraProtocols occurrences_append_KAFKA)
qed

lemma fold_WithKafkaConnection_at_most_once:
  "occurrences '',KAFKA'' (extraProtocols minion) \<le> 1 \<Longrightarrow>
   occurrences '',KAFKA'' (extraProtocols
     (fold (\<lambda>connection minion. fst (WithKafkaConnection connection minion))
        connections minion)) \<le> 1"
proof (induction connections arbitrary: minion)
  case Nil
  then show ?case by simp
next
  case (Cons connection connections)
  from Cons.prems
  have "occurrences '',KAFKA'' (extraProtocols (fst (WithKafkaConnection connection minion))) \<le> 1"
    by (rule WithKafkaConnection_at_most_once)
  then have "occurrences '',KAFKA'' (extraProtocols
      (fold (\<lambda>connection minion. fst (WithKafkaConnection connection minion))
         connections (fst (WithKafkaConnection connection minion)))) \<le> 1"
    by (rule Cons.IH)
  then show ?case by simp
qed

lemma WithKafkaConnection_list:
  "list (containerOptions (fst (WithKafkaConnection connection minion))) =
     list (containerOptions minion)
     @ [WithEnv ''ASYNC_PROTOCOLS'' (extraProtocols (fst (WithKafkaConnection connection minion))),
        WithEnv ''KAFKA_BOOTSTRAP_SERVER'' (BootstrapServers connection)]"
  by (simp add: WithKafkaConnection_def Let_def Add_def)

text \<open>
  Claim C5. Whatever the number of applications of \<^verbatim>\<open>WithKafkaConnection\<close> to a handle,
  its protocol string never comes to contain \<^verbatim>\<open>,KAFKA\<close> more than once: a string with
  at most one occurrence keeps at most one, and the string of a new handle is empty. The
  customization checks containment before it appends, so a second application leaves the
  string of the first.
\<close>

theorem C5_KAFKA_at_most_once:
  "(occurrences '',KAFKA'' (extraProtocols minion) \<le> 1 \<longrightarrow>
      occurrences '',KAFKA'' (extraProtocols
        (fold (\<lambda>connection minion. fst (WithKafkaConnection connection minion))
           connections minion)) \<le> 1)
   \<and> (extraProtocols minion = [] \<longrightarrow>
      occurrences '',KAFKA'' (extraProtocols
        (fold (\<lambda>connection minion. fst (WithKafkaConnection connection minion))
           connections minion)) \<le> 1)
   \<and> extraProtocols (fst (WithKafkaConnection connection2
        (fst (WithKafkaConnection connection1 minion))))
      = extraProtocols (fst (WithKafkaConnection connection1 minion))"
proof (intro conjI impI)
  assume "occurrences '',KAFKA'' (extraProtocols minion) \<le> 1"
  then show "occurrences '',KAFKA'' (extraProtocols
      (fold (\<lambda>connection minion. fst (WithKafkaConnection connection minion))
         connections minion)) \<le> 1"
    by (rule fold_WithKafkaConnection_at_most_once)
next
  assume "extraProtocols minion = []"
  then have "occurrences '',KAFKA'' (extraProtocols minion) \<le> 1" by simp
  then show "occurrences '',KAFKA'' (extraProtocols
      (fold (\<lambda>connection minion. fst (WithKafkaConnection connection minion))
         connections minion)) \<le> 1"
    by (rule fold_WithKafkaConnection_at_most_once)
next
  show "extraProtocols (fst (WithKafkaConnection connection2
        (fst (WithKafkaConnection connection1 minion))))
      = extraProtocols (fst (WithKafkaConnection connection1 minion))"
    using WithKafkaConnection_contains [of connection1 minion]
    by (simp add: WithKafkaConnection_extraProtocols [of connection2])
qed

theorem C5_KAFKA_at_most_once_witness:
  "extraProtocols example_minion = []
   \<and> occurrences '',KAFKA'' (extraProtocols
        (fold (\<lambda>connection minion. fst (WithKafkaConnection connection minion))
           [\<lparr>BootstrapServers = ''kafka:9092''\<rparr>, \<lparr>BootstrapServers = ''kafka:9093''\<rparr>]
           example_minion)) \<le> 1
   \<and> extraProtocols (fst (WithKafkaConnection \<lparr>BootstrapServers = ''kafka:9093''\<rparr>
        (fst (WithKafkaConnection \<lparr>BootstrapServers = ''kafka:9092''\<rparr> example_minion))))
      = '',KAFKA''"
proof -
  have fresh: "extraProtocols example_minion = []" by (simp add: example_minion_def)
  have once: "extraProtocols (fst (WithKafkaConnection \<lparr>BootstrapServers = ''kafka:9092''\<rparr>
      example_minion)) = '',KAFKA''"
    by (simp add: WithKafkaConnection_extraProtocols fresh strings_Contains_Nil)
  show ?thesis
    using fresh once
      C5_KAFKA_at_most_once [of example_minion
        "[\<lparr>BootstrapServers = ''kafka:9092''\<rparr>, \<lparr>BootstrapServers = ''kafka:9093''\<rparr>]"
        "\<lparr>BootstrapServers = ''kafka:9093''\<rparr>" "\<lparr>BootstrapServers = ''kafka:9092''\<rparr>"]
    by simp
qed

text \<open>
  Claim C10. On a handle whose protocol string is empty, as that of a new handle is, the
  first \<^verbatim>\<open>WithKafkaConnection\<close> makes the string \<^verbatim>\<open>,KAFKA\<close>, with its leading comma,
  and the customization it queues for \<^verbatim>\<open>ASYNC_PROTOCOLS\<close> carries that same string: it
  is \<^verbatim>\<open>WithEnv("ASYNC_PROTOCOLS", ",KAFKA")\<close>, which binds the variable to \<^verbatim>\<open>,KAFKA\<close>
  in any request it is applied to.
\<close>

theorem C10_first_KAFKA_leading_comma:
  "(extraProtocols minion = [] \<longrightarrow>
      extraProtocols (fst (WithKafkaConnection connection minion)) = '',KAFKA''
      \<and> list (containerOptions (fst (WithKafkaConnection connection minion))) =
          list (containerOptions minion)
          @ [WithEnv ''ASYNC_PROTOCOLS'' '',KAFKA'',
             WithEnv ''KAFKA_BOOTSTRAP_SERVER'' (BootstrapServers connection)])
   \<and> (\<exists>env. Env (fst (Customize (WithEnv ''ASYNC_PROTOCOLS'' '',KAFKA'') req)) = Some env
        \<and> env ''ASYNC_PROTOCOLS'' = Some '',KAFKA'')"
proof (intro conjI impI)
  assume fresh: "extraProtocols minion = []"
  then show first: "extraProtocols (fst (WithKafkaConnection connection minion)) = '',KAFKA''"
    by (simp add: WithKafkaConnection_extraProtocols strings_Contains_Nil)
  show "list (containerOptions (fst (WithKafkaConnection connection minion))) =
      list (containerOptions minion)
      @ [WithEnv ''ASYNC_PROTOCOLS'' '',KAFKA'',
         WithEnv ''KAFKA_BOOTSTRAP_SERVER'' (BootstrapServers connection)]"
    by (simp only: WithKafkaConnection_list first)
next
  show "\<exists>env. Env (fst (Customize (WithEnv ''ASYNC_PROTOCOLS'' '',KAFKA'') req)) = Some env
      \<and> env ''ASYNC_PROTOCOLS'' = Some '',KAFKA''"
    by (simp add: Customize_def WithEnv_Env)
qed

theorem C10_first_KAFKA_leading_comma_witness:
  "extraProtocols example_minion = []
   \<and> extraProtocols (fst (WithKafkaConnection \<lparr>BootstrapServers = ''kafka:9092''\<rparr>
        example_minion)) = '',KAFKA''
   \<and> list (containerOptions (fst (WithKafkaConnection \<lparr>BootstrapServers = ''kafka:9092''\<rparr>
        example_minion))) =
       [WithEnv ''ASYNC_PROTOCOLS'' '',KAFKA'', WithEnv ''KAFKA_BOOTSTRAP_SERVER'' ''kafka:9092'']"
proof -
  have fresh: "extraProtocols example_minion = []" by (simp add: example_minion_def)
  have none: "list (containerOptions example_minion) = []" by (simp add: example_minion_def)
  show ?thesis
    using fresh none
      C10_first_KAFKA_leading_comma [of example_minion "\<lparr>BootstrapServers = ''kafka:9092''\<rparr>"
        "RunContainer_request ''microcks:8080'' []"]
    by simp
qed

text \<open>
  Claim C1, where the code departs from it. \<^verbatim>\<open>RunContainer\<close> with no customization
  launches a container whose environment holds \<^verbatim>\<open>MICROCKS_HOST_PORT\<close> alone, and returns
  a new handle. \<^verbatim>\<open>WithKafkaConnection\<close> on that handle queues the two \<^verbatim>\<open>WithEnv\<close>
  customizations in the handle's option list, and nothing in the module reads that list:
  neither \<^verbatim>\<open>ASYNC_PROTOCOLS\<close> nor \<^verbatim>\<open>KAFKA_BOOTSTRAP_SERVER\<close> is in the environment
  of the launched container.
\<close>

theorem C1_kafka_variables_only_queued:
  "RunContainer example_runtime () ''microcks:8080'' [] = (Some example_minion, None)
   \<and> Env (RunContainer_request ''microcks:8080'' [])
       = Some [''MICROCKS_HOST_PORT'' \<mapsto> ''microcks:8080'']
   \<and> [''MICROCKS_HOST_PORT'' \<mapsto> ''microcks:8080''] ''ASYNC_PROTOCOLS'' = None
   \<and> [''MICROCKS_HOST_PORT'' \<mapsto> ''microcks:8080''] ''KAFKA_BOOTSTRAP_SERVER'' = None
   \<and> list (containerOptions (fst (WithKafkaConnection \<lparr>BootstrapServers = ''kafka:9092''\<rparr>
        example_minion))) =
       [WithEnv ''ASYNC_PROTOCOLS'' '',KAFKA'', WithEnv ''KAFKA_BOOTSTRAP_SERVER'' ''kafka:9092'']"
proof -
  have fresh: "extraProtocols example_minion = []" by (simp add: example_minion_def)
  have first: "extraProtocols (fst (WithKafkaConnection \<lparr>BootstrapServers = ''kafka:9092''\<rparr>
      example_minion)) = '',KAFKA''"
    by (simp add: WithKafkaConnection_extraProtocols fresh strings_Contains_Nil)
  have queued: "list (containerOptions (fst (WithKafkaConnection
      \<lparr>BootstrapServers = ''kafka:9092''\<rparr> example_minion))) =
      [WithEnv ''ASYNC_PROTOCOLS'' '',KAFKA'', WithEnv ''KAFKA_BOOTSTRAP_SERVER'' ''kafka:9092'']"
    by (simp add: WithKafkaConnection_list first) (simp add: example_minion_def)
  have launched: "RunContainer example_runtime () ''microcks:8080'' [] = (Some example_minion, None)"
    by (simp add: RunContainer_def example_runtime_def example_minion_def)
  show ?thesis
    using queued launched by (simp add: RunContainer_request_default)
qed

end
